theory Spec2Isabelle
  imports Complex_Main
begin

section \<open>tft_unit.py: the test-support class TransformTestCase\<close>

text \<open>
  A shallow embedding of \<^verbatim>\<open>tensorflow_transform/beam/tft_unit.py\<close>. The class
  \<^verbatim>\<open>TransformTestCase\<close> adds four methods to TensorFlow's test case. What they call
  in other libraries (the comparators \<^verbatim>\<open>assertAllEqual\<close> and \<^verbatim>\<open>assertAllClose\<close>,
  the Beam pipeline steps, the metadata classes) is taken as a parameter: the object
  \<^verbatim>\<open>self\<close> is a record of these inherited and imported operations.
\<close>

subsection \<open>Values, rows and datasets\<close>

text \<open>
  The docstring of \<^verbatim>\<open>assertDataCloseOrEqual\<close>: a dataset is a sequence of dicts whose
  values are strings, lists of strings, numeric types or a pair of those. A float is
  abstracted to a real number: the source does no arithmetic on it, only the inherited
  comparators do.
\<close>

datatype pyval =
    PStr string
  | PInt int
  | PFloat real
  | PList "pyval list"
  | PTuple "pyval list"

type_synonym key = string
type_synonym row = "(key \<times> pyval) list"
type_synonym dataset = "row list"

subsection \<open>Exceptions\<close>

text \<open>An exception is its class and its \<^verbatim>\<open>args\<close> tuple; \<^verbatim>\<open>args[0]\<close> is the message.\<close>

datatype exn_kind = AssertionError | TypeError | IndexError | KeyError | NotFoundError | RuntimeError

datatype exn = Exn exn_kind "string list"

fun exn_class :: "exn \<Rightarrow> exn_kind" where
  "exn_class (Exn k args) = k"

fun exn_args :: "exn \<Rightarrow> string list" where
  "exn_args (Exn k args) = args"

subsection \<open>Python primitives used by the source\<close>

text \<open>\<^verbatim>\<open>isinstance(v, str)\<close>, \<^verbatim>\<open>isinstance(v, list)\<close>, \<^verbatim>\<open>isinstance(v, tuple)\<close>.\<close>

fun isinstance_str :: "pyval \<Rightarrow> bool" where
  "isinstance_str (PStr s) = True"
| "isinstance_str v = False"

fun isinstance_list :: "pyval \<Rightarrow> bool" where
  "isinstance_list (PList xs) = True"
| "isinstance_list v = False"

fun isinstance_tuple :: "pyval \<Rightarrow> bool" where
  "isinstance_tuple (PTuple xs) = True"
| "isinstance_tuple v = False"

text \<open>Truthiness of a value: an empty string or sequence and a zero number are falsy.\<close>

fun truthy :: "pyval \<Rightarrow> bool" where
  "truthy (PStr s) = (s \<noteq> [])"
| "truthy (PInt n) = (n \<noteq> 0)"
| "truthy (PFloat x) = (x \<noteq> 0)"
| "truthy (PList xs) = (xs \<noteq> [])"
| "truthy (PTuple xs) = (xs \<noteq> [])"

text \<open>
  \<^verbatim>\<open>v[i]\<close> for a non-negative index: a sequence out of range raises IndexError, a
  string gives the one-character string, a number raises TypeError.
\<close>

fun getitem :: "pyval \<Rightarrow> nat \<Rightarrow> exn + pyval" where
  "getitem (PTuple xs) i =
     (if i < length xs then Inr (xs ! i) else Inl (Exn IndexError [''tuple index out of range'']))"
| "getitem (PList xs) i =
     (if i < length xs then Inr (xs ! i) else Inl (Exn IndexError [''list index out of range'']))"
| "getitem (PStr s) i =
     (if i < length s then Inr (PStr [s ! i]) else Inl (Exn IndexError [''string index out of range'']))"
| "getitem (PInt n) i = Inl (Exn TypeError [''object has no attribute __getitem__''])"
| "getitem (PFloat x) i = Inl (Exn TypeError [''object has no attribute __getitem__''])"

text \<open>\<^verbatim>\<open>'%d' % n\<close> for a natural number.\<close>

fun str_of_nat :: "nat \<Rightarrow> string" where
  "str_of_nat n =
     (if n < 10 then [char_of (48 + n)]
      else str_of_nat (n div 10) @ [char_of (48 + n mod 10)])"

declare str_of_nat.simps [simp del]

text \<open>Sequencing of fallible steps: the first exception ends the computation.\<close>

definition bind_exn :: "exn + 'a \<Rightarrow> ('a \<Rightarrow> exn + 'b) \<Rightarrow> exn + 'b" where
  "bind_exn r f = (case r of Inl e \<Rightarrow> Inl e | Inr x \<Rightarrow> f x)"

subsection \<open>Schema metadata\<close>

text \<open>
  The metadata classes are the library's. The source reads
  \<^verbatim>\<open>metadata.schema.column_schemas\<close> (a dict from feature name to column schema),
  \<^verbatim>\<open>column_schema.representation\<close> and \<^verbatim>\<open>column_schema.domain.dtype\<close>, and
  compares whole objects with \<^verbatim>\<open>==\<close>. The comment of lines 166-168 names
  \<^verbatim>\<open>vocabulary_file\<close> as an attribute outside these; \<^verbatim>\<open>axes\<close> is another.
  What a metadata object holds besides its schema is one field, \<^verbatim>\<open>other_attributes\<close>.
  The pipeline returns the metadata in a wrapper with the fields
  \<^verbatim>\<open>dataset_metadata\<close> and \<^verbatim>\<open>pcollections\<close>.
\<close>

record domain =
  dtype :: string
  vocabulary_file :: "string option"

record column_schema =
  domain :: domain
  axes :: "nat list"
  representation :: string

type_synonym column_dict = "(key \<times> column_schema) list"

record schema =
  column_schemas :: column_dict

record dataset_metadata =
  schema :: schema
  other_attributes :: string

record beam_dataset_metadata =
  dataset_metadata :: dataset_metadata
  pcollections :: "(string \<times> string) list"

text \<open>\<^verbatim>\<open>==\<close> of two dicts: the same keys with equal values, in any order.\<close>

definition dict_eq :: "column_dict \<Rightarrow> column_dict \<Rightarrow> bool" where
  "dict_eq d1 d2 =
     (set (map fst d1) = set (map fst d2) \<and> (\<forall>k \<in> set (map fst d1). map_of d1 k = map_of d2 k))"

definition metadata_eq :: "dataset_metadata \<Rightarrow> dataset_metadata \<Rightarrow> bool" where
  "metadata_eq m1 m2 =
     (dict_eq (column_schemas (schema m1)) (column_schemas (schema m2)) \<and>
      other_attributes m1 = other_attributes m2)"

subsection \<open>The test case object\<close>

text \<open>
  What \<^verbatim>\<open>self\<close> inherits from \<^verbatim>\<open>test_util.TensorFlowTestCase\<close>. The comparators
  return normally or raise; \<^verbatim>\<open>repr_data\<close> is \<^verbatim>\<open>'%r' % data\<close>;
  \<^verbatim>\<open>standardMsg\<close> is the message unittest builds from the two operands of a failed
  assertion; \<^verbatim>\<open>get_temp_dir\<close> is the directory of the test.
\<close>

datatype operand =
    Keys_op "key list"
  | Lines_op "string list"
  | Str_op string
  | Dict_op column_dict
  | Metadata_op dataset_metadata

record testcase =
  assertAllEqual :: "pyval \<Rightarrow> pyval \<Rightarrow> exn + unit"
  assertAllClose :: "pyval \<Rightarrow> pyval \<Rightarrow> exn + unit"
  repr_data :: "dataset \<Rightarrow> string"
  standardMsg :: "operand \<Rightarrow> operand \<Rightarrow> string"
  get_temp_dir :: string

text \<open>
  \<^verbatim>\<open>longMessage = True\<close> (line 31): a failing assertion with a message \<^verbatim>\<open>msg\<close>
  raises AssertionError with \<^verbatim>\<open>'%s : %s' % (standardMsg, msg)\<close>.
\<close>

definition formatMessage :: "string option \<Rightarrow> string \<Rightarrow> string" where
  "formatMessage msg standard =
     (case msg of None \<Rightarrow> standard | Some m \<Rightarrow> standard @ '' : '' @ m)"

subsection \<open>Leaf comparison (lines 59-70)\<close>

text \<open>The condition of lines 61-63.\<close>

definition compares_exactly :: "pyval \<Rightarrow> bool" where
  "compares_exactly a_value =
     (isinstance_str a_value \<or>
      (isinstance_list a_value \<and> truthy a_value \<and>
       (case a_value of PList (x # xs) \<Rightarrow> isinstance_str x | _ \<Rightarrow> False)))"

text \<open>
  The handler of lines 67-70. Only AssertionError and TypeError are caught. With a truthy
  \<^verbatim>\<open>msg\<close> the first argument of the exception gets \<^verbatim>\<open>' : ' + msg\<close> appended
  (\<^verbatim>\<open>e.args[0]\<close> of an exception without arguments raises IndexError); then the same
  exception is raised again.
\<close>

definition reraise :: "string option \<Rightarrow> exn \<Rightarrow> exn" where
  "reraise msg e =
     (if exn_class e = AssertionError \<or> exn_class e = TypeError then
        (case msg of
           None \<Rightarrow> e
         | Some m \<Rightarrow>
             if m = [] then e
             else (case exn_args e of
                     [] \<Rightarrow> Exn IndexError [''tuple index out of range'']
                   | a0 # rest \<Rightarrow> Exn (exn_class e) ((a0 @ '' : '' @ m) # rest)))
      else e)"

text \<open>\<^verbatim>\<open>_assertValuesCloseOrEqual\<close> (the leading underscore is not an Isabelle name).\<close>

definition assertValuesCloseOrEqual ::
  "testcase \<Rightarrow> pyval \<Rightarrow> pyval \<Rightarrow> string option \<Rightarrow> exn + unit" where
  "assertValuesCloseOrEqual self a_value b_value msg =
     (case (if compares_exactly a_value
            then assertAllEqual self a_value b_value
            else assertAllClose self a_value b_value) of
        Inl e \<Rightarrow> Inl (reraise msg e)
      | Inr u \<Rightarrow> Inr u)"

subsection \<open>Dataset comparison (lines 33-57)\<close>

text \<open>A row is a dict: \<^verbatim>\<open>row.keys()\<close> and \<^verbatim>\<open>row[key]\<close> (KeyError when absent).\<close>

definition keys :: "row \<Rightarrow> key list" where
  "keys r = map fst r"

definition dict_get :: "row \<Rightarrow> key \<Rightarrow> exn + pyval" where
  "dict_get r k = (case map_of r k of None \<Rightarrow> Inl (Exn KeyError [k]) | Some v \<Rightarrow> Inr v)"

text \<open>
  \<^verbatim>\<open>self.assertEqual(len(a_data), len(b_data), msg)\<close>: the standard message of
  unittest for two unequal integers is \<^verbatim>\<open>'%s != %s'\<close> of the two.
\<close>

definition assertEqual_len :: "nat \<Rightarrow> nat \<Rightarrow> string \<Rightarrow> exn + unit" where
  "assertEqual_len first second msg =
     (if first = second then Inr ()
      else Inl (Exn AssertionError
             [formatMessage (Some msg) (str_of_nat first @ '' != '' @ str_of_nat second)]))"

text \<open>
  \<^verbatim>\<open>self.assertItemsEqual(expected_seq, actual_seq, msg)\<close>: the two sequences have
  the same elements with the same counts, in any order.
\<close>

definition same_items :: "key list \<Rightarrow> key list \<Rightarrow> bool" where
  "same_items xs ys = (\<forall>k \<in> set (xs @ ys). count_list xs k = count_list ys k)"

definition assertItemsEqual :: "testcase \<Rightarrow> key list \<Rightarrow> key list \<Rightarrow> string \<Rightarrow> exn + unit" where
  "assertItemsEqual self expected_seq actual_seq msg =
     (if same_items expected_seq actual_seq then Inr ()
      else Inl (Exn AssertionError
             [formatMessage (Some msg)
                (standardMsg self (Keys_op expected_seq) (Keys_op actual_seq))]))"

text \<open>Lines 53-57: a tuple is compared by its first two elements, anything else whole.\<close>

definition check_value :: "testcase \<Rightarrow> pyval \<Rightarrow> pyval \<Rightarrow> string option \<Rightarrow> exn + unit" where
  "check_value self a_value b_value msg =
     (if isinstance_tuple a_value then
        bind_exn (getitem a_value 0) (\<lambda>a0.
        bind_exn (getitem b_value 0) (\<lambda>b0.
        bind_exn (assertValuesCloseOrEqual self a0 b0 msg) (\<lambda>u.
        bind_exn (getitem a_value 1) (\<lambda>a1.
        bind_exn (getitem b_value 1) (\<lambda>b1.
          assertValuesCloseOrEqual self a1 b1 msg)))))
      else assertValuesCloseOrEqual self a_value b_value msg)"

text \<open>The body of the inner loop, lines 50-57, for one key of \<^verbatim>\<open>a_row\<close>.\<close>

definition check_field :: "testcase \<Rightarrow> nat \<Rightarrow> row \<Rightarrow> row \<Rightarrow> key \<Rightarrow> exn + unit" where
  "check_field self i a_row b_row key =
     bind_exn (dict_get a_row key) (\<lambda>a_value.
     bind_exn (dict_get b_row key) (\<lambda>b_value.
       check_value self a_value b_value (Some (''Row '' @ str_of_nat i @ '', key '' @ key))))"

text \<open>The inner loop, line 49.\<close>

fun check_keys :: "testcase \<Rightarrow> nat \<Rightarrow> row \<Rightarrow> row \<Rightarrow> key list \<Rightarrow> exn + unit" where
  "check_keys self i a_row b_row [] = Inr ()"
| "check_keys self i a_row b_row (key # rest) =
     bind_exn (check_field self i a_row b_row key) (\<lambda>u. check_keys self i a_row b_row rest)"

text \<open>The body of the outer loop, lines 48-57, for the row pair of index \<^verbatim>\<open>i\<close>.\<close>

definition check_row :: "testcase \<Rightarrow> nat \<Rightarrow> row \<Rightarrow> row \<Rightarrow> exn + unit" where
  "check_row self i a_row b_row =
     bind_exn (assertItemsEqual self (keys a_row) (keys b_row) (''Row '' @ str_of_nat i))
       (\<lambda>u. check_keys self i a_row b_row (keys a_row))"

text \<open>The outer loop, line 47, over \<^verbatim>\<open>enumerate(zip(a_data, b_data))\<close> from index \<^verbatim>\<open>i\<close>.\<close>

fun check_rows :: "testcase \<Rightarrow> nat \<Rightarrow> (row \<times> row) list \<Rightarrow> exn + unit" where
  "check_rows self i [] = Inr ()"
| "check_rows self i ((a_row, b_row) # rest) =
     bind_exn (check_row self i a_row b_row) (\<lambda>u. check_rows self (Suc i) rest)"

definition assertDataCloseOrEqual :: "testcase \<Rightarrow> dataset \<Rightarrow> dataset \<Rightarrow> exn + unit" where
  "assertDataCloseOrEqual self a_data b_data =
     bind_exn
       (assertEqual_len (length a_data) (length b_data)
          (''len('' @ repr_data self a_data @ '') != len('' @ repr_data self b_data @ '')''))
       (\<lambda>u. check_rows self 0 (zip a_data b_data))"

subsection \<open>The imported modules and the world\<close>

text \<open>
  The pipeline steps of \<^verbatim>\<open>beam_impl\<close>, the writer of \<^verbatim>\<open>transform_fn_io\<close>, the
  resolver of \<^verbatim>\<open>beam_metadata_io\<close> and the methods of the metadata class are not in
  this file: they are the fields of a record, over any type \<^typ>\<open>'p\<close> of preprocessing
  functions and \<^typ>\<open>'f\<close> of transform functions. A step returns or raises. The
  steps run inside \<^verbatim>\<open>beam_impl.Context(temp_dir, desired_batch_size)\<close>.
\<close>

record beam_context =
  temp_dir :: string
  desired_batch_size :: "nat option"

type_synonym files = "string \<rightharpoonup> string list"

record ('p, 'f) modules =
  AnalyzeAndTransformDataset ::
    "beam_context \<Rightarrow> 'p \<Rightarrow> dataset \<times> dataset_metadata \<Rightarrow> exn + ((dataset \<times> beam_dataset_metadata) \<times> 'f)"
  AnalyzeDataset :: "beam_context \<Rightarrow> 'p \<Rightarrow> dataset \<times> dataset_metadata \<Rightarrow> exn + 'f"
  TransformDataset ::
    "beam_context \<Rightarrow> (dataset \<times> dataset_metadata) \<times> 'f \<Rightarrow> exn + (dataset \<times> beam_dataset_metadata)"
  WriteTransformFn :: "string \<Rightarrow> 'f \<Rightarrow> files \<Rightarrow> exn + files"
  ResolveBeamFutures :: "beam_dataset_metadata \<Rightarrow> exn + dataset_metadata list"
  substitute_futures :: "dataset_metadata \<Rightarrow> (string \<times> string) list \<Rightarrow> string list"
  bool_metadata :: "dataset_metadata \<Rightarrow> bool"
  TRANSFORM_FN_DIR :: string

text \<open>
  The world the method acts on: the files, and the calls made so far to the pipeline, the
  writer, the resolver and the file reader, in order.
\<close>

datatype ('p, 'f) event =
    Call_AnalyzeAndTransformDataset 'p dataset dataset_metadata
  | Call_AnalyzeDataset 'p dataset dataset_metadata
  | Call_TransformDataset dataset dataset_metadata 'f
  | Call_WriteTransformFn 'f string
  | Call_ResolveBeamFutures beam_dataset_metadata
  | Call_Open string

record ('p, 'f) world =
  files :: files
  calls :: "('p, 'f) event list"

definition record_call :: "('p, 'f) event \<Rightarrow> ('p, 'f) world \<Rightarrow> ('p, 'f) world" where
  "record_call ev w = w\<lparr>calls := calls w @ [ev]\<rparr>"

text \<open>Sequencing of fallible steps that act on the world.\<close>

definition bind_io ::
  "('w \<Rightarrow> (exn + 'a) \<times> 'w) \<Rightarrow> ('a \<Rightarrow> 'w \<Rightarrow> (exn + 'b) \<times> 'w) \<Rightarrow> 'w \<Rightarrow> (exn + 'b) \<times> 'w" where
  "bind_io f g w = (case f w of (Inl e, w1) \<Rightarrow> (Inl e, w1) | (Inr x, w1) \<Rightarrow> g x w1)"

definition pure_io :: "exn + 'a \<Rightarrow> 'w \<Rightarrow> (exn + 'a) \<times> 'w" where
  "pure_io r w = (r, w)"

text \<open>\<^verbatim>\<open>os.path.join\<close> (posixpath).\<close>

definition join_step :: "string \<Rightarrow> string \<Rightarrow> string" where
  "join_step path b =
     (if (case b of [] \<Rightarrow> False | c # cs \<Rightarrow> c = CHR ''/'') then b
      else if path = [] \<or> (case rev path of [] \<Rightarrow> False | c # cs \<Rightarrow> c = CHR ''/'') then path @ b
      else path @ ''/'' @ b)"

definition os_path_join :: "string \<Rightarrow> string list \<Rightarrow> string" where
  "os_path_join a p = foldl join_step a p"

text \<open>
  \<^verbatim>\<open>self.assertEqual(first, second, msg)\<close> with Python's \<^verbatim>\<open>==\<close> on the operands, and
  \<^verbatim>\<open>self.assertSameElements(expected_seq, actual_seq)\<close>: the same set of elements.
\<close>

fun operand_eq :: "operand \<Rightarrow> operand \<Rightarrow> bool" where
  "operand_eq (Dict_op d1) (Dict_op d2) = dict_eq d1 d2"
| "operand_eq (Metadata_op m1) (Metadata_op m2) = metadata_eq m1 m2"
| "operand_eq x y = (x = y)"

definition assertEqual :: "testcase \<Rightarrow> operand \<Rightarrow> operand \<Rightarrow> string option \<Rightarrow> exn + unit" where
  "assertEqual self first second msg =
     (if operand_eq first second then Inr ()
      else Inl (Exn AssertionError [formatMessage msg (standardMsg self first second)]))"

definition assertSameElements :: "testcase \<Rightarrow> key list \<Rightarrow> key list \<Rightarrow> exn + unit" where
  "assertSameElements self expected_seq actual_seq =
     (if set expected_seq = set actual_seq then Inr ()
      else Inl (Exn AssertionError [standardMsg self (Keys_op expected_seq) (Keys_op actual_seq)]))"

subsection \<open>Deferred metadata (lines 72-87)\<close>

text \<open>Lines 84-87: no unresolved future may remain in the resolved metadata.\<close>

definition no_unresolved ::
  "testcase \<Rightarrow> ('p, 'f) modules \<Rightarrow> dataset_metadata \<Rightarrow> exn + dataset_metadata" where
  "no_unresolved self m transformed_metadata =
     (let unresolved_futures = substitute_futures m transformed_metadata [] in
      bind_exn (assertEqual self (Lines_op unresolved_futures) (Lines_op []) None)
        (\<lambda>u. Inr transformed_metadata))"

text \<open>\<^verbatim>\<open>_resolveDeferredMetadata\<close>.\<close>

definition resolveDeferredMetadata ::
  "testcase \<Rightarrow> ('p, 'f) modules \<Rightarrow> beam_dataset_metadata \<Rightarrow> ('p, 'f) world \<Rightarrow>
     (exn + dataset_metadata) \<times> ('p, 'f) world" where
  "resolveDeferredMetadata self m transformed_metadata w =
     (if pcollections transformed_metadata \<noteq> [] then
        (let w1 = record_call (Call_ResolveBeamFutures transformed_metadata) w in
         case ResolveBeamFutures m transformed_metadata of
           Inl e \<Rightarrow> (Inl e, w1)
         | Inr [] \<Rightarrow> (Inl (Exn IndexError [''list index out of range'']), w1)
         | Inr (r # rs) \<Rightarrow> (no_unresolved self m r, w1))
      else (no_unresolved self m (dataset_metadata transformed_metadata), w))"

subsection \<open>The end-to-end assertion (lines 89-190)\<close>

text \<open>
  Lines 144-153: one fused step when \<^verbatim>\<open>test_data is None\<close>, else the analysis of the
  input data and the application of its transform function to the test data.
\<close>

definition run_transform ::
  "('p, 'f) modules \<Rightarrow> beam_context \<Rightarrow> 'p \<Rightarrow> dataset \<Rightarrow> dataset_metadata \<Rightarrow> dataset option \<Rightarrow>
     ('p, 'f) world \<Rightarrow> (exn + (dataset \<times> beam_dataset_metadata \<times> 'f)) \<times> ('p, 'f) world" where
  "run_transform m ctx preprocessing_fn input_data input_metadata test_data w =
     (case test_data of
        None \<Rightarrow>
          (let w1 = record_call
                 (Call_AnalyzeAndTransformDataset preprocessing_fn input_data input_metadata) w in
           case AnalyzeAndTransformDataset m ctx preprocessing_fn (input_data, input_metadata) of
             Inl e \<Rightarrow> (Inl e, w1)
           | Inr ((transformed_data, transformed_metadata), transform_fn) \<Rightarrow>
               (Inr (transformed_data, transformed_metadata, transform_fn), w1))
      | Some td \<Rightarrow>
          (let w1 = record_call (Call_AnalyzeDataset preprocessing_fn input_data input_metadata) w in
           case AnalyzeDataset m ctx preprocessing_fn (input_data, input_metadata) of
             Inl e \<Rightarrow> (Inl e, w1)
           | Inr transform_fn \<Rightarrow>
               (let w2 = record_call (Call_TransformDataset td input_metadata transform_fn) w1 in
                case TransformDataset m ctx ((td, input_metadata), transform_fn) of
                  Inl e \<Rightarrow> (Inl e, w2)
                | Inr (transformed_data, transformed_metadata) \<Rightarrow>
                    (Inr (transformed_data, transformed_metadata, transform_fn), w2))))"

text \<open>Lines 156-157: the transform function is written when the expected assets are truthy.\<close>

definition write_transform_fn ::
  "('p, 'f) modules \<Rightarrow> string \<Rightarrow> (string \<times> string list) list \<Rightarrow> 'f \<Rightarrow>
     ('p, 'f) world \<Rightarrow> (exn + unit) \<times> ('p, 'f) world" where
  "write_transform_fn m tmp expected_asset_file_contents transform_fn w =
     (if expected_asset_file_contents \<noteq> [] then
        (let w1 = record_call (Call_WriteTransformFn transform_fn tmp) w in
         case WriteTransformFn m tmp transform_fn (files w1) of
           Inl e \<Rightarrow> (Inl e, w1)
         | Inr fs \<Rightarrow> (Inr (), w1\<lparr>files := fs\<rparr>))
      else (Inr (), w))"

text \<open>Lines 159-160.\<close>

definition check_data :: "testcase \<Rightarrow> dataset option \<Rightarrow> dataset \<Rightarrow> exn + unit" where
  "check_data self expected_data transformed_data =
     (case expected_data of
        None \<Rightarrow> Inr ()
      | Some ed \<Rightarrow> assertDataCloseOrEqual self ed transformed_data)"

text \<open>The loop of lines 172-177 over the items of the transformed column schemas.\<close>

fun check_core_columns :: "testcase \<Rightarrow> column_dict \<Rightarrow> column_dict \<Rightarrow> exn + unit" where
  "check_core_columns self expected_columns [] = Inr ()"
| "check_core_columns self expected_columns ((k, v) # rest) =
     (case map_of expected_columns k of
        None \<Rightarrow> Inl (Exn KeyError [k])
      | Some expected_schema \<Rightarrow>
          bind_exn (assertEqual self (Str_op (representation expected_schema))
                      (Str_op (representation v))
                      (Some (''representation doesn't match for feature '' @ [CHR 0x27] @ k @ [CHR 0x27])))
            (\<lambda>u.
          bind_exn (assertEqual self (Str_op (dtype (domain expected_schema)))
                      (Str_op (dtype (domain v)))
                      (Some (''dtype doesn't match for feature '' @ [CHR 0x27] @ k @ [CHR 0x27])))
            (\<lambda>u. check_core_columns self expected_columns rest)))"

text \<open>Lines 165-184, on the resolved metadata.\<close>

definition compare_metadata ::
  "testcase \<Rightarrow> bool \<Rightarrow> dataset_metadata \<Rightarrow> dataset_metadata \<Rightarrow> exn + unit" where
  "compare_metadata self only_check_core_metadata expected_metadata transformed_metadata =
     (if only_check_core_metadata then
        bind_exn (assertSameElements self
                    (map fst (column_schemas (schema transformed_metadata)))
                    (map fst (column_schemas (schema expected_metadata))))
          (\<lambda>u. check_core_columns self (column_schemas (schema expected_metadata))
                  (column_schemas (schema transformed_metadata)))
      else
        bind_exn (assertEqual self (Dict_op (column_schemas (schema expected_metadata)))
                    (Dict_op (column_schemas (schema transformed_metadata))) None)
          (\<lambda>u. assertEqual self (Metadata_op expected_metadata)
                  (Metadata_op transformed_metadata) None))"

text \<open>Lines 162-184: nothing is done for a falsy \<^verbatim>\<open>expected_metadata\<close>.\<close>

definition check_metadata ::
  "testcase \<Rightarrow> ('p, 'f) modules \<Rightarrow> dataset_metadata option \<Rightarrow> bool \<Rightarrow> beam_dataset_metadata \<Rightarrow>
     ('p, 'f) world \<Rightarrow> (exn + unit) \<times> ('p, 'f) world" where
  "check_metadata self m expected_metadata only_check_core_metadata transformed_metadata w =
     (case expected_metadata of
        None \<Rightarrow> (Inr (), w)
      | Some em \<Rightarrow>
          if bool_metadata m em then
            bind_io (resolveDeferredMetadata self m transformed_metadata)
              (\<lambda>resolved. pure_io (compare_metadata self only_check_core_metadata em resolved)) w
          else (Inr (), w))"

text \<open>The loop of lines 186-190 over the items of the expected asset file contents.\<close>

fun check_assets ::
  "testcase \<Rightarrow> ('p, 'f) modules \<Rightarrow> string \<Rightarrow> (string \<times> string list) list \<Rightarrow>
     ('p, 'f) world \<Rightarrow> (exn + unit) \<times> ('p, 'f) world" where
  "check_assets self m tmp [] w = (Inr (), w)"
| "check_assets self m tmp ((filename, file_contents) # rest) w =
     (let full_filename = os_path_join tmp [TRANSFORM_FN_DIR m, ''assets'', filename];
          w1 = record_call (Call_Open full_filename) w
      in case files w1 full_filename of
           None \<Rightarrow> (Inl (Exn NotFoundError [full_filename]), w1)
         | Some lines \<Rightarrow>
             (case assertEqual self (Lines_op lines) (Lines_op file_contents) None of
                Inl e \<Rightarrow> (Inl e, w1)
              | Inr u \<Rightarrow> check_assets self m tmp rest w1))"

definition assertAnalyzeAndTransformResults ::
  "testcase \<Rightarrow> ('p, 'f) modules \<Rightarrow> dataset \<Rightarrow> dataset_metadata \<Rightarrow> 'p \<Rightarrow> dataset option \<Rightarrow>
     dataset_metadata option \<Rightarrow> bool \<Rightarrow> (string \<times> string list) list option \<Rightarrow> dataset option \<Rightarrow>
     nat option \<Rightarrow> ('p, 'f) world \<Rightarrow> (exn + unit) \<times> ('p, 'f) world" where
  "assertAnalyzeAndTransformResults self m input_data input_metadata preprocessing_fn
     expected_data expected_metadata only_check_core_metadata expected_asset_file_contents
     test_data batch_size w =
     (let assets = (case expected_asset_file_contents of None \<Rightarrow> [] | Some d \<Rightarrow> d);
          tmp = get_temp_dir self;
          ctx = \<lparr>temp_dir = tmp, desired_batch_size = batch_size\<rparr>
      in bind_io (run_transform m ctx preprocessing_fn input_data input_metadata test_data)
           (\<lambda>(transformed_data, transformed_metadata, transform_fn).
         bind_io (write_transform_fn m tmp assets transform_fn)
           (\<lambda>u.
         bind_io (pure_io (check_data self expected_data transformed_data))
           (\<lambda>u.
         bind_io (check_metadata self m expected_metadata only_check_core_metadata
                    transformed_metadata)
           (\<lambda>u. check_assets self m tmp assets)))) w)"

subsection \<open>The properties of the specification, in its words\<close>






text \<open>
  The leaf policy: a string, or a non-empty list whose first element is a string, is
  compared exactly, every other leaf approximately. Two leaves are equal when that
  comparison accepts them.
\<close>

fun string_typed :: "pyval \<Rightarrow> bool" where
  "string_typed (PStr s) = True"
| "string_typed (PList (PStr s # xs)) = True"
| "string_typed v = False"








subsection \<open>A sample test case\<close>

text \<open>
  A test case object to run the methods on concrete data: exact comparison is equality;
  approximate comparison takes numbers and lists of numbers, with the tolerances
  \<^verbatim>\<open>rtol = atol = 1e-6\<close>, and raises TypeError on anything else.
\<close>

fun number_of :: "pyval \<Rightarrow> real option" where
  "number_of (PInt n) = Some (of_int n)"
| "number_of (PFloat x) = Some x"
| "number_of v = None"

fun numbers_of :: "pyval \<Rightarrow> real list option" where
  "numbers_of (PList xs) = those (map number_of xs)"
| "numbers_of v = map_option (\<lambda>x. [x]) (number_of v)"

definition is_close :: "real \<Rightarrow> real \<Rightarrow> bool" where
  "is_close x y = (\<bar>x - y\<bar> \<le> 1 / 1000000 + 1 / 1000000 * \<bar>y\<bar>)"

definition sample_equal :: "pyval \<Rightarrow> pyval \<Rightarrow> exn + unit" where
  "sample_equal a b = (if a = b then Inr () else Inl (Exn AssertionError [''not equal'']))"

definition sample_close :: "pyval \<Rightarrow> pyval \<Rightarrow> exn + unit" where
  "sample_close a b =
     (case (numbers_of a, numbers_of b) of
        (Some xs, Some ys) \<Rightarrow>
          if list_all2 is_close xs ys then Inr ()
          else Inl (Exn AssertionError [''not close''])
      | _ \<Rightarrow> Inl (Exn TypeError [''not a number'']))"

definition sample_self :: testcase where
  "sample_self =
     \<lparr>assertAllEqual = sample_equal, assertAllClose = sample_close,
      repr_data = (\<lambda>d. ''data''), standardMsg = (\<lambda>x y. ''differ''),
      get_temp_dir = ''/tmp''\<rparr>"

subsection \<open>Calls, files and metadata in the words of the specification\<close>


fun is_write_call :: "('p, 'f) event \<Rightarrow> bool" where
  "is_write_call (Call_WriteTransformFn f tmp) = True"
| "is_write_call ev = False"

fun is_resolve_call :: "('p, 'f) event \<Rightarrow> bool" where
  "is_resolve_call (Call_ResolveBeamFutures tm) = True"
| "is_resolve_call ev = False"

fun is_open_call :: "('p, 'f) event \<Rightarrow> bool" where
  "is_open_call (Call_Open name) = True"
| "is_open_call ev = False"

text \<open>The calls a step makes: what it appends to the calls of the world it starts in.\<close>

definition calls_made ::
  "(('p, 'f) world \<Rightarrow> (exn + 'a) \<times> ('p, 'f) world) \<Rightarrow> ('p, 'f) world \<Rightarrow> ('p, 'f) event list" where
  "calls_made step w = drop (length (calls w)) (calls (snd (step w)))"

text \<open>
  The core of two metadata objects is equal: the same feature names and, for every
  feature, the same representation and the same dtype of the domain.
\<close>

definition core_columns_equal :: "column_dict \<Rightarrow> column_dict \<Rightarrow> bool" where
  "core_columns_equal expected transformed =
     (set (map fst transformed) = set (map fst expected) \<and>
      list_all (\<lambda>k. case (map_of expected k, map_of transformed k) of
                       (Some e, Some v) \<Rightarrow>
                         representation e = representation v \<and> dtype (domain e) = dtype (domain v)
                     | _ \<Rightarrow> False) (map fst transformed))"

text \<open>
  The pipeline calls of the end-to-end assertion: the fused step on the input data and
  metadata without test data; with test data the analysis of the input data and, when
  it returns a transform function, its application to the test data with the input
  metadata.
\<close>

definition expected_pipeline_calls ::
  "('p, 'f) modules \<Rightarrow> beam_context \<Rightarrow> 'p \<Rightarrow> dataset \<Rightarrow> dataset_metadata \<Rightarrow> dataset option \<Rightarrow>
     ('p, 'f) event list" where
  "expected_pipeline_calls m ctx preprocessing_fn input_data input_metadata test_data =
     (case test_data of
        None \<Rightarrow> [Call_AnalyzeAndTransformDataset preprocessing_fn input_data input_metadata]
      | Some td \<Rightarrow>
          Call_AnalyzeDataset preprocessing_fn input_data input_metadata #
          (case AnalyzeDataset m ctx preprocessing_fn (input_data, input_metadata) of
             Inl e \<Rightarrow> []
           | Inr transform_fn \<Rightarrow> [Call_TransformDataset td input_metadata transform_fn]))"

text \<open>A falsy \<^verbatim>\<open>expected_metadata\<close>: \<^verbatim>\<open>None\<close>, or an object that is falsy.\<close>

definition falsy_metadata :: "('p, 'f) modules \<Rightarrow> dataset_metadata option \<Rightarrow> bool" where
  "falsy_metadata m expected_metadata =
     (case expected_metadata of None \<Rightarrow> True | Some em \<Rightarrow> \<not> bool_metadata m em)"

text \<open>No expected asset file contents: \<^verbatim>\<open>None\<close> or the empty dict.\<close>

definition no_assets :: "(string \<times> string list) list option \<Rightarrow> bool" where
  "no_assets expected_asset_file_contents =
     (case expected_asset_file_contents of None \<Rightarrow> True | Some d \<Rightarrow> d = [])"

subsection \<open>Sample modules\<close>

text \<open>
  Modules to run the end-to-end assertion on concrete data. The preprocessing function
  is a factor for the numbers of the data, and the transform function is this factor;
  the metadata comes back resolved; the writer stores one asset file.
\<close>

fun scale :: "real \<Rightarrow> pyval \<Rightarrow> pyval" where
  "scale c (PInt n) = PFloat (c * of_int n)"
| "scale c (PFloat x) = PFloat (c * x)"
| "scale c v = v"

definition scale_data :: "real \<Rightarrow> dataset \<Rightarrow> dataset" where
  "scale_data c d = map (map (\<lambda>item. (fst item, scale c (snd item)))) d"

definition sample_modules :: "(real, real) modules" where
  "sample_modules =
     \<lparr>AnalyzeAndTransformDataset =
        (\<lambda>ctx c input. Inr ((scale_data c (fst input),
                              \<lparr>dataset_metadata = snd input, pcollections = []\<rparr>), c)),
      AnalyzeDataset = (\<lambda>ctx c input. Inr c),
      TransformDataset =
        (\<lambda>ctx input. Inr (scale_data (snd input) (fst (fst input)),
                           \<lparr>dataset_metadata = snd (fst input), pcollections = []\<rparr>)),
      WriteTransformFn = (\<lambda>tmp f fs. Inr (fs(tmp @ ''/transform_fn/assets/vocab'' \<mapsto> [''a'', ''b'']))),
      ResolveBeamFutures = (\<lambda>tm. Inr [dataset_metadata tm]),
      substitute_futures = (\<lambda>md d. []),
      bool_metadata = (\<lambda>md. True),
      TRANSFORM_FN_DIR = ''transform_fn''\<rparr>"

definition sample_column :: "string \<Rightarrow> string option \<Rightarrow> column_schema" where
  "sample_column t vf =
     \<lparr>domain = \<lparr>dtype = t, vocabulary_file = vf\<rparr>, axes = [], representation = ''fixed''\<rparr>"

definition sample_metadata :: "string option \<Rightarrow> dataset_metadata" where
  "sample_metadata vf =
     \<lparr>schema = \<lparr>column_schemas = [(''x'', sample_column ''float32'' vf)]\<rparr>,
      other_attributes = []\<rparr>"

definition empty_world :: "(real, real) world" where
  "empty_world = \<lparr>files = Map.empty, calls = []\<rparr>"


section \<open>Properties\<close>

subsection \<open>Auxiliary facts\<close>

lemma compares_exactly_iff: "compares_exactly a = string_typed a"
  by (induction a rule: string_typed.induct) (simp_all add: compares_exactly_def)

lemma bind_exn_Inr_iff: "bind_exn r f = Inr y \<longleftrightarrow> (\<exists>x. r = Inr x \<and> f x = Inr y)"
  by (cases r) (simp_all add: bind_exn_def)





lemma same_items_set: "same_items xs ys \<Longrightarrow> set xs = set ys"
proof -
  assume h: "same_items xs ys"
  have "k \<in> set xs \<longleftrightarrow> k \<in> set ys" for k
  proof (cases "k \<in> set xs \<or> k \<in> set ys")
    case True
    with h have "count_list xs k = count_list ys k" by (auto simp: same_items_def)
    then show ?thesis by (metis count_list_0_iff)
  next
    case False
    then show ?thesis by simp
  qed
  then show ?thesis by blast
qed






lemma check_rows_Inr_iff:
  "check_rows self n ps = Inr () \<longleftrightarrow>
     (\<forall>j < length ps. check_row self (n + j) (fst (ps ! j)) (snd (ps ! j)) = Inr ())"
proof (induction ps arbitrary: n)
  case Nil
  then show ?case by simp
next
  case (Cons p ps)
  obtain a b where p: "p = (a, b)" by (cases p)
  show ?case
    unfolding p check_rows.simps bind_exn_Inr_iff Cons.IH
    by (auto simp: less_Suc_eq_0_disj)
qed

lemma check_rows_first_failure:
  "i < length ps \<Longrightarrow>
   \<forall>j < i. check_row self (n + j) (fst (ps ! j)) (snd (ps ! j)) = Inr () \<Longrightarrow>
   check_row self (n + i) (fst (ps ! i)) (snd (ps ! i)) = Inl e \<Longrightarrow>
   check_rows self n ps = Inl e"
proof (induction ps arbitrary: n i)
  case Nil
  then show ?case by simp
next
  case (Cons p ps)
  obtain a b where p: "p = (a, b)" by (cases p)
  show ?case
  proof (cases i)
    case 0
    with Cons.prems p show ?thesis by (simp add: bind_exn_def)
  next
    case (Suc i')
    from Cons.prems(2) Suc have first: "check_row self n a b = Inr ()"
      using p by force
    have "check_rows self (Suc n) ps = Inl e"
    proof (rule Cons.IH [of i'])
      show "i' < length ps" using Cons.prems(1) Suc by simp
      show "\<forall>j<i'. check_row self (Suc n + j) (fst (ps ! j)) (snd (ps ! j)) = Inr ()"
      proof (intro allI impI)
        fix j assume "j < i'"
        then have "Suc j < i" using Suc by simp
        with Cons.prems(2) have "check_row self (n + Suc j) (fst ((p # ps) ! Suc j)) (snd ((p # ps) ! Suc j)) = Inr ()"
          by blast
        then show "check_row self (Suc n + j) (fst (ps ! j)) (snd (ps ! j)) = Inr ()" by simp
      qed
      show "check_row self (Suc n + i') (fst (ps ! i')) (snd (ps ! i')) = Inl e"
        using Cons.prems(3) Suc by simp
    qed
    with first p show ?thesis by (simp add: bind_exn_def)
  qed
qed










lemma check_row_fields_differ:
  "set (keys a_row) \<noteq> set (keys b_row) \<Longrightarrow>
   check_row self i a_row b_row =
     Inl (Exn AssertionError
       [standardMsg self (Keys_op (keys a_row)) (Keys_op (keys b_row)) @ '' : Row '' @ str_of_nat i])"
  using same_items_set [of "keys a_row" "keys b_row"]
  by (auto simp: check_row_def assertItemsEqual_def bind_exn_def formatMessage_def)

lemma zip_rows_nth:
  "length a_data = length b_data \<Longrightarrow> j < length a_data \<Longrightarrow>
   fst (zip a_data b_data ! j) = a_data ! j \<and> snd (zip a_data b_data ! j) = b_data ! j"
  by simp

lemma calls_made_append: "calls (snd (step w)) = calls w @ c \<Longrightarrow> calls_made step w = c"
  by (simp add: calls_made_def)

lemma run_transform_calls:
  "calls (snd (run_transform m ctx p d md t w)) = calls w @ expected_pipeline_calls m ctx p d md t"
  by (auto simp: run_transform_def expected_pipeline_calls_def record_call_def Let_def
        split: option.splits sum.splits prod.splits)


lemma write_transform_fn_calls:
  "calls (snd (write_transform_fn m tmp assets f w)) =
     calls w @ (if assets \<noteq> [] then [Call_WriteTransformFn f tmp] else [])"
  by (auto simp: write_transform_fn_def record_call_def Let_def split: sum.splits)

lemma write_transform_fn_empty: "write_transform_fn m tmp [] f w = (Inr (), w)"
  by (simp add: write_transform_fn_def)

lemma resolve_calls:
  "calls (snd (resolveDeferredMetadata self m tm w)) =
     calls w @ (if pcollections tm \<noteq> [] then [Call_ResolveBeamFutures tm] else [])"
  by (auto simp: resolveDeferredMetadata_def record_call_def Let_def split: sum.splits list.splits)


lemma check_metadata_snd:
  "snd (check_metadata self m em core tm w) =
     (if falsy_metadata m em then w else snd (resolveDeferredMetadata self m tm w))"
  by (auto simp: check_metadata_def falsy_metadata_def bind_io_def pure_io_def
        split: option.splits prod.splits sum.splits)

lemma check_metadata_falsy: "falsy_metadata m em \<Longrightarrow> check_metadata self m em core tm w = (Inr (), w)"
  by (auto simp: check_metadata_def falsy_metadata_def split: option.splits)

lemma check_metadata_calls:
  "calls (snd (check_metadata self m em core tm w)) =
     calls w @ (if \<not> falsy_metadata m em \<and> pcollections tm \<noteq> []
                then [Call_ResolveBeamFutures tm] else [])"
  by (simp add: check_metadata_snd resolve_calls)


lemma check_assets_world:
  "\<exists>c. calls (snd (check_assets self m tmp assets w)) = calls w @ c \<and> list_all is_open_call c"
proof (induction assets arbitrary: w)
  case Nil
  then show ?case by simp
next
  case (Cons a assets)
  obtain filename file_contents where a: "a = (filename, file_contents)" by (cases a)
  let ?full = "os_path_join tmp [TRANSFORM_FN_DIR m, ''assets'', filename]"
  let ?w1 = "record_call (Call_Open ?full) w"
  from Cons.IH [of ?w1] obtain c where
    c: "calls (snd (check_assets self m tmp assets ?w1)) = calls ?w1 @ c"
      "list_all is_open_call c" by blast
  have w1: "calls ?w1 = calls w @ [Call_Open ?full]" by (simp add: record_call_def)
  have "calls (snd (check_assets self m tmp (a # assets) w)) = calls w @ [Call_Open ?full]
      \<or> calls (snd (check_assets self m tmp (a # assets) w)) = calls w @ (Call_Open ?full # c)"
    using c(1) w1 by (auto simp: a Let_def split: option.splits sum.splits)
  then show ?case
  proof
    assume "calls (snd (check_assets self m tmp (a # assets) w)) = calls w @ [Call_Open ?full]"
    then show ?thesis by (intro exI [of _ "[Call_Open ?full]"]) simp
  next
    assume "calls (snd (check_assets self m tmp (a # assets) w)) = calls w @ (Call_Open ?full # c)"
    with c(2) show ?thesis by (intro exI [of _ "Call_Open ?full # c"]) simp
  qed
qed

lemma check_assets_files: "files (snd (check_assets self m tmp assets w)) = files w"
proof (induction assets arbitrary: w)
  case Nil
  then show ?case by simp
next
  case (Cons a assets)
  obtain filename file_contents where a: "a = (filename, file_contents)" by (cases a)
  show ?case
    using Cons.IH by (auto simp: a Let_def record_call_def split: option.splits sum.splits)
qed

lemma assert_pipeline_fails:
  assumes "run_transform m \<lparr>temp_dir = get_temp_dir self, desired_batch_size = bs\<rparr> p d md t w = (Inl e, w1)"
  shows "assertAnalyzeAndTransformResults self m d md p ed em core assets t bs w = (Inl e, w1)"
  using assms by (simp add: assertAnalyzeAndTransformResults_def bind_io_def)

lemma assert_after_pipeline:
  assumes "run_transform m \<lparr>temp_dir = get_temp_dir self, desired_batch_size = bs\<rparr> p d md t w
             = (Inr (td, tm, f), w1)"
  shows "assertAnalyzeAndTransformResults self m d md p ed em core assets t bs w =
     (case write_transform_fn m (get_temp_dir self) (case assets of None \<Rightarrow> [] | Some x \<Rightarrow> x) f w1 of
        (Inl e, w2) \<Rightarrow> (Inl e, w2)
      | (Inr u, w2) \<Rightarrow>
          (case check_data self ed td of
             Inl e \<Rightarrow> (Inl e, w2)
           | Inr u \<Rightarrow>
               (case check_metadata self m em core tm w2 of
                  (Inl e, w3) \<Rightarrow> (Inl e, w3)
                | (Inr u, w3) \<Rightarrow>
                    check_assets self m (get_temp_dir self)
                      (case assets of None \<Rightarrow> [] | Some x \<Rightarrow> x) w3)))"
  using assms
  by (simp add: assertAnalyzeAndTransformResults_def bind_io_def pure_io_def
        split: prod.splits sum.splits)

lemma assert_calls:
  "\<exists>c2 c3 c4.
     calls (snd (assertAnalyzeAndTransformResults self m d md p ed em core assets t bs w)) =
       calls w @
       expected_pipeline_calls m \<lparr>temp_dir = get_temp_dir self, desired_batch_size = bs\<rparr> p d md t @
       c2 @ c3 @ c4
     \<and> list_all is_write_call c2 \<and> list_all is_resolve_call c3 \<and> list_all is_open_call c4
     \<and> (no_assets assets \<longrightarrow> c2 = [] \<and> c4 = [])
     \<and> (falsy_metadata m em \<longrightarrow> c3 = [])
     \<and> (\<not> no_assets assets \<and>
         \<not> isl (fst (run_transform m \<lparr>temp_dir = get_temp_dir self, desired_batch_size = bs\<rparr>
                        p d md t w)) \<longrightarrow> c2 \<noteq> [])"
proof -
  let ?ctx = "\<lparr>temp_dir = get_temp_dir self, desired_batch_size = bs\<rparr>"
  let ?A = "case assets of None \<Rightarrow> [] | Some x \<Rightarrow> x"
  let ?tmp = "get_temp_dir self"
  let ?whole = "assertAnalyzeAndTransformResults self m d md p ed em core assets t bs w"
  let ?c1 = "expected_pipeline_calls m ?ctx p d md t"
  have A: "no_assets assets \<longleftrightarrow> ?A = []"
    by (simp add: no_assets_def split: option.splits)
  obtain r1 w1 where rt: "run_transform m ?ctx p d md t w = (r1, w1)" by force
  have w1: "calls w1 = calls w @ ?c1"
    using run_transform_calls [of m ?ctx p d md t w] rt by simp
  show ?thesis
  proof (cases r1)
    case (Inl e)
    with rt have "?whole = (Inl e, w1)" by (simp add: assert_pipeline_fails)
    with w1 Inl rt show ?thesis
      by (intro exI [of _ "[]"]) simp
  next
    case (Inr x)
    obtain td tm f where x: "x = (td, tm, f)" by (cases x)
    note unfold = assert_after_pipeline [OF rt [unfolded Inr x], of ed em core assets]
    obtain r2 w2 where wr: "write_transform_fn m ?tmp ?A f w1 = (r2, w2)" by force
    let ?c2 = "if ?A \<noteq> [] then [Call_WriteTransformFn f ?tmp] else []"
    have w2: "calls w2 = calls w1 @ ?c2"
      using write_transform_fn_calls [of m ?tmp ?A f w1] wr by simp
    have c2: "list_all is_write_call ?c2" by simp
    show ?thesis
    proof (cases "isl r2 \<or> isl (check_data self ed td)")
      case True
      then have "snd ?whole = w2"
        using unfold wr by (auto simp: isl_def split: sum.splits)
      with w1 w2 A show ?thesis
        by (intro exI [of _ ?c2] exI [of _ "[]"]) auto
    next
      case False
      obtain r3 w3 where cm: "check_metadata self m em core tm w2 = (r3, w3)" by force
      let ?c3 = "if \<not> falsy_metadata m em \<and> pcollections tm \<noteq> []
                 then [Call_ResolveBeamFutures tm] else []"
      have w3: "calls w3 = calls w2 @ ?c3"
        using check_metadata_calls [of self m em core tm w2] cm by simp
      show ?thesis
      proof (cases r3)
        case (Inl e)
        with False have "snd ?whole = w3"
          using unfold wr cm by (auto split: sum.splits)
        with w1 w2 w3 A show ?thesis
          by (intro exI [of _ ?c2] exI [of _ ?c3] exI [of _ "[]"]) auto
      next
        case (Inr u)
        obtain c4 where c4: "calls (snd (check_assets self m ?tmp ?A w3)) = calls w3 @ c4"
          "list_all is_open_call c4"
          using check_assets_world by blast
        have c4e: "?A = [] \<longrightarrow> c4 = []" using c4(1) by auto
        from Inr False have "snd ?whole = snd (check_assets self m ?tmp ?A w3)"
          using unfold wr cm by (auto split: sum.splits)
        with w1 w2 w3 c4 c4e A show ?thesis
          by (intro exI [of _ ?c2] exI [of _ ?c3] exI [of _ c4]) auto
      qed
    qed
  qed
qed







lemma assert_data_only:
  assumes "run_transform m \<lparr>temp_dir = get_temp_dir self, desired_batch_size = bs\<rparr> p d md t w
             = (Inr (td, tm, f), w1)"
  shows "fst (assertAnalyzeAndTransformResults self m d md p (Some expected) None core None t bs w)
           = assertDataCloseOrEqual self expected td"
  using assert_after_pipeline [OF assms, of "Some expected" None core None]
  by (simp add: write_transform_fn_empty check_data_def check_metadata_def split: sum.splits)

lemma sample_scaled_ok:
  "assertDataCloseOrEqual sample_self [[(''x'', PFloat 2)], [(''x'', PFloat 4)]]
     (scale_data 2 [[(''x'', PInt 1)], [(''x'', PInt 2)]]) = Inr ()"
  by (simp add: assertDataCloseOrEqual_def assertEqual_len_def bind_exn_def check_row_def
        assertItemsEqual_def same_items_def keys_def check_field_def dict_get_def check_value_def
        assertValuesCloseOrEqual_def compares_exactly_def sample_self_def sample_close_def
        is_close_def scale_data_def)

lemma no_resolve_pipeline: "list_all (\<lambda>ev. \<not> is_resolve_call ev) (expected_pipeline_calls m ctx p d md t)"
  by (simp add: expected_pipeline_calls_def split: option.splits sum.splits)

lemma no_resolve_write: "list_all is_write_call c \<Longrightarrow> list_all (\<lambda>ev. \<not> is_resolve_call ev) c"
proof (induction c)
  case (Cons ev c)
  then show ?case by (cases ev) auto
qed simp

lemma no_resolve_open: "list_all is_open_call c \<Longrightarrow> list_all (\<lambda>ev. \<not> is_resolve_call ev) c"
proof (induction c)
  case (Cons ev c)
  then show ?case by (cases ev) auto
qed simp

lemma check_assets_resolver_at:
  "check_assets self (m\<lparr>ResolveBeamFutures := R, substitute_futures := S\<rparr>) tmp assets w =
   check_assets self m tmp assets w"
proof (induction assets arbitrary: w)
  case Nil
  then show ?case by simp
next
  case (Cons a assets)
  obtain filename file_contents where a: "a = (filename, file_contents)" by (cases a)
  show ?case
    by (simp add: a Cons.IH Let_def split: option.splits sum.splits)
qed

lemma check_assets_resolver:
  "check_assets self (m\<lparr>ResolveBeamFutures := R, substitute_futures := S\<rparr>) tmp assets =
   check_assets self m tmp assets"
  by (rule ext) (rule check_assets_resolver_at)

lemma run_transform_resolver:
  "run_transform (m\<lparr>ResolveBeamFutures := R, substitute_futures := S\<rparr>) ctx p d md t =
   run_transform m ctx p d md t"
  by (rule ext) (cases t; simp add: run_transform_def Let_def split: sum.splits)

lemma write_transform_fn_resolver:
  "write_transform_fn (m\<lparr>ResolveBeamFutures := R, substitute_futures := S\<rparr>) tmp assets f =
   write_transform_fn m tmp assets f"
  by (rule ext) (simp add: write_transform_fn_def)






lemma sample_run_ok:
  "fst (assertAnalyzeAndTransformResults sample_self sample_modules
        [[(''x'', PInt 1)], [(''x'', PInt 2)]] (sample_metadata None) 2
        (Some [[(''x'', PFloat 2)], [(''x'', PFloat 4)]]) None False None None None empty_world) = Inr ()"
proof -
  let ?D = "[[(''x'', PInt 1)], [(''x'', PInt 2)]]"
  let ?MD = "sample_metadata None"
  let ?ctx = "\<lparr>temp_dir = get_temp_dir sample_self, desired_batch_size = None\<rparr>"
  have "run_transform sample_modules ?ctx 2 ?D ?MD None empty_world =
      (Inr (scale_data 2 ?D, \<lparr>dataset_metadata = ?MD, pcollections = []\<rparr>, 2),
       record_call (Call_AnalyzeAndTransformDataset 2 ?D ?MD) empty_world)"
    by (simp add: run_transform_def sample_modules_def)
  from assert_data_only [OF this] show ?thesis
    by (simp add: sample_scaled_ok)
qed

lemma check_core_columns_ok_iff:
  "check_core_columns self ex tr = Inr () \<longleftrightarrow>
     list_all (\<lambda>item. case map_of ex (fst item) of
                 Some e \<Rightarrow> representation e = representation (snd item)
                           \<and> dtype (domain e) = dtype (domain (snd item))
               | None \<Rightarrow> False) tr"
proof (induction tr)
  case Nil
  then show ?case by simp
next
  case (Cons a tr)
  obtain k v where a: "a = (k, v)" by (cases a)
  show ?case
    by (cases "map_of ex k") (auto simp: a Cons.IH bind_exn_Inr_iff assertEqual_def)
qed

lemma items_as_keys:
  assumes "distinct (map fst tr)"
  shows "list_all (\<lambda>item. P (fst item) (Some (snd item))) tr
       = list_all (\<lambda>k. P k (map_of tr k)) (map fst tr)"
proof -
  have "P (fst item) (Some (snd item)) = P (fst item) (map_of tr (fst item))" if "item \<in> set tr" for item
  proof -
    from that assms have "map_of tr (fst item) = Some (snd item)"
      by (intro map_of_is_SomeI) simp_all
    then show ?thesis by simp
  qed
  then show ?thesis by (auto simp: list_all_iff)
qed

lemma compare_core_ok_iff:
  assumes "distinct (map fst (column_schemas (schema rm)))"
  shows "compare_metadata self True em rm = Inr () \<longleftrightarrow>
     core_columns_equal (column_schemas (schema em)) (column_schemas (schema rm))"
proof -
  let ?ex = "column_schemas (schema em)" and ?tr = "column_schemas (schema rm)"
  have "list_all (\<lambda>item. case map_of ?ex (fst item) of
                 Some e \<Rightarrow> representation e = representation (snd item)
                           \<and> dtype (domain e) = dtype (domain (snd item))
               | None \<Rightarrow> False) ?tr
      = list_all (\<lambda>k. case (map_of ?ex k, map_of ?tr k) of
                       (Some e, Some v) \<Rightarrow>
                         representation e = representation v \<and> dtype (domain e) = dtype (domain v)
                     | _ \<Rightarrow> False) (map fst ?tr)"
    using items_as_keys [OF assms,
        of "\<lambda>k ov. case (map_of ?ex k, ov) of
                       (Some e, Some v) \<Rightarrow>
                         representation e = representation v \<and> dtype (domain e) = dtype (domain v)
                     | _ \<Rightarrow> False"]
    by (simp add: list_all_iff split: option.splits)
  then show ?thesis
    by (simp add: compare_metadata_def assertSameElements_def bind_exn_Inr_iff
          check_core_columns_ok_iff core_columns_equal_def)
qed

lemma compare_full_ok_iff:
  "compare_metadata self False em rm = Inr () \<longleftrightarrow>
     dict_eq (column_schemas (schema em)) (column_schemas (schema rm)) \<and> metadata_eq em rm"
  by (simp add: compare_metadata_def assertEqual_def bind_exn_Inr_iff)

lemma core_columns_equal_other_fields:
  "core_columns_equal ex
     (map (\<lambda>(k, c). (k, c\<lparr>axes := ax, domain := (domain c)\<lparr>vocabulary_file := vf\<rparr>\<rparr>)) tr)
   = core_columns_equal ex tr"
proof -
  let ?g = "\<lambda>c. c\<lparr>axes := ax, domain := (domain c)\<lparr>vocabulary_file := vf\<rparr>\<rparr>"
  have keys: "map fst (map (\<lambda>(k, c). (k, ?g c)) tr) = map fst tr"
    by (induction tr) auto
  have look: "map_of (map (\<lambda>(k, c). (k, ?g c)) tr) k = map_option ?g (map_of tr k)" for k
    by (simp add: map_of_map)
  show ?thesis
    unfolding core_columns_equal_def keys look
    by (auto simp: list_all_iff split: option.splits)
qed

lemma assert_metadata_only:
  assumes "run_transform m \<lparr>temp_dir = get_temp_dir self, desired_batch_size = bs\<rparr> p d md t w
             = (Inr (td, tm, f), w1)"
    and "check_data self ed td = Inr ()"
    and "bool_metadata m em" and "resolveDeferredMetadata self m tm w1 = (Inr rm, w2)"
  shows "fst (assertAnalyzeAndTransformResults self m d md p ed (Some em) core None t bs w)
           = compare_metadata self core em rm"
  using assert_after_pipeline [OF assms(1), of ed "Some em" core None] assms(2,3,4)
  by (simp add: write_transform_fn_empty check_metadata_def bind_io_def pure_io_def
        split: sum.splits)

subsection \<open>The leaf comparison\<close>

text \<open>
  C1. A leaf that is a string, or a non-empty list whose first element is a string, is
  compared by \<^verbatim>\<open>assertAllEqual\<close>; every other leaf, the empty list too, is compared by
  \<^verbatim>\<open>assertAllClose\<close>. Without a message the result of the comparator is the result;
  with one, an exception of the comparator goes through the handler.
\<close>

theorem leaf_comparison_policy:
  "assertValuesCloseOrEqual self a b None =
     (if string_typed a then assertAllEqual self a b else assertAllClose self a b)
   \<and> assertValuesCloseOrEqual self (PList []) b None = assertAllClose self (PList []) b
   \<and> assertValuesCloseOrEqual self a b msg =
       map_sum (reraise msg) id
         (if string_typed a then assertAllEqual self a b else assertAllClose self a b)"
  by (auto simp: assertValuesCloseOrEqual_def compares_exactly_iff reraise_def
           split: sum.splits)

theorem leaf_comparison_policy_witness:
  "assertValuesCloseOrEqual sample_self (PList [PStr ''a'', PStr ''b'']) (PList [PStr ''a'']) None
     = Inl (Exn AssertionError [''not equal''])
   \<and> assertValuesCloseOrEqual sample_self (PList []) (PList []) None = Inr ()"
  using leaf_comparison_policy [of sample_self "PList [PStr ''a'', PStr ''b'']" "PList [PStr ''a'']" None]
    leaf_comparison_policy [of sample_self "PList []" "PList []" None]
  by (simp add: sample_self_def sample_equal_def sample_close_def)

subsection \<open>The dataset comparison\<close>




text \<open>
  C5. Two datasets of different lengths fail with an AssertionError whose message gives
  the two lengths and the two sequences; no row and no comparator enters the result.
  A row pair whose field names differ fails with an AssertionError ending in
  \<^verbatim>\<open>Row i\<close> for its index; so the call fails whenever there is such a row pair,
  with this error when the rows before it pass.
\<close>

theorem length_and_field_errors:
  "(length a_data \<noteq> length b_data \<longrightarrow>
      assertDataCloseOrEqual self a_data b_data =
        Inl (Exn AssertionError
          [str_of_nat (length a_data) @ '' != '' @ str_of_nat (length b_data) @
           '' : len('' @ repr_data self a_data @ '') != len('' @ repr_data self b_data @ '')'']))
   \<and> (set (keys a_row) \<noteq> set (keys b_row) \<longrightarrow>
      check_row self i a_row b_row =
        Inl (Exn AssertionError
          [standardMsg self (Keys_op (keys a_row)) (Keys_op (keys b_row)) @
           '' : Row '' @ str_of_nat i]))
   \<and> (length a_data = length b_data \<and> i < length a_data \<and>
       set (keys (a_data ! i)) \<noteq> set (keys (b_data ! i)) \<longrightarrow>
      isl (assertDataCloseOrEqual self a_data b_data))
   \<and> (length a_data = length b_data \<and> i < length a_data \<and>
       set (keys (a_data ! i)) \<noteq> set (keys (b_data ! i)) \<and>
       (\<forall>j < i. check_row self j (a_data ! j) (b_data ! j) = Inr ()) \<longrightarrow>
      assertDataCloseOrEqual self a_data b_data =
        Inl (Exn AssertionError
          [standardMsg self (Keys_op (keys (a_data ! i))) (Keys_op (keys (b_data ! i))) @
           '' : Row '' @ str_of_nat i]))"
proof (intro conjI impI)
  assume "length a_data \<noteq> length b_data"
  then show "assertDataCloseOrEqual self a_data b_data =
        Inl (Exn AssertionError
          [str_of_nat (length a_data) @ '' != '' @ str_of_nat (length b_data) @
           '' : len('' @ repr_data self a_data @ '') != len('' @ repr_data self b_data @ '')''])"
    by (simp add: assertDataCloseOrEqual_def assertEqual_len_def bind_exn_def formatMessage_def)
next
  assume "set (keys a_row) \<noteq> set (keys b_row)"
  then show "check_row self i a_row b_row =
        Inl (Exn AssertionError
          [standardMsg self (Keys_op (keys a_row)) (Keys_op (keys b_row)) @
           '' : Row '' @ str_of_nat i])"
    by (rule check_row_fields_differ)
next
  assume h: "length a_data = length b_data \<and> i < length a_data \<and>
       set (keys (a_data ! i)) \<noteq> set (keys (b_data ! i))"
  then have row: "isl (check_row self (0 + i) (a_data ! i) (b_data ! i))"
    by (simp add: check_row_fields_differ)
  have "check_rows self 0 (zip a_data b_data) \<noteq> Inr ()"
  proof
    assume "check_rows self 0 (zip a_data b_data) = Inr ()"
    with h have "check_row self (0 + i) (a_data ! i) (b_data ! i) = Inr ()"
      unfolding check_rows_Inr_iff by (metis length_zip min.idem zip_rows_nth)
    with row show False by simp
  qed
  then have "isl (check_rows self 0 (zip a_data b_data))"
    by (cases "check_rows self 0 (zip a_data b_data)") auto
  with h show "isl (assertDataCloseOrEqual self a_data b_data)"
    by (simp add: assertDataCloseOrEqual_def assertEqual_len_def bind_exn_def)
next
  let ?e = "Exn AssertionError
          [standardMsg self (Keys_op (keys (a_data ! i))) (Keys_op (keys (b_data ! i))) @
           '' : Row '' @ str_of_nat i]"
  assume h: "length a_data = length b_data \<and> i < length a_data \<and>
       set (keys (a_data ! i)) \<noteq> set (keys (b_data ! i)) \<and>
       (\<forall>j < i. check_row self j (a_data ! j) (b_data ! j) = Inr ())"
  have "check_rows self 0 (zip a_data b_data) = Inl ?e"
  proof (rule check_rows_first_failure [of i])
    show "i < length (zip a_data b_data)" using h by simp
    show "\<forall>j<i. check_row self (0 + j) (fst (zip a_data b_data ! j)) (snd (zip a_data b_data ! j)) = Inr ()"
      using h by simp
    show "check_row self (0 + i) (fst (zip a_data b_data ! i)) (snd (zip a_data b_data ! i)) = Inl ?e"
      using h by (simp add: check_row_fields_differ)
  qed
  with h show "assertDataCloseOrEqual self a_data b_data = Inl ?e"
    by (simp add: assertDataCloseOrEqual_def assertEqual_len_def bind_exn_def)
qed

theorem length_and_field_errors_witness:
  "assertDataCloseOrEqual sample_self
      [[(''a'', PInt 1)], [(''a'', PInt 1), (''b'', PInt 2)]] [[(''a'', PInt 1)]]
     = Inl (Exn AssertionError [''2 != 1 : len(data) != len(data)''])
   \<and> assertDataCloseOrEqual sample_self
      [[(''a'', PInt 1)], [(''a'', PInt 1), (''b'', PInt 2)]] [[(''a'', PInt 1)], [(''a'', PInt 1)]]
     = Inl (Exn AssertionError [''differ : Row 1''])
   \<and> check_row sample_self 1 [(''a'', PInt 1), (''b'', PInt 2)] [(''a'', PInt 1)]
     = Inl (Exn AssertionError [''differ : Row 1''])"
proof -
  let ?A = "[[(''a'', PInt 1)], [(''a'', PInt 1), (''b'', PInt 2)]]"
  let ?B1 = "[[(''a'', PInt 1)]]"
  let ?B2 = "[[(''a'', PInt 1)], [(''a'', PInt 1)]]"
  have s1: "str_of_nat (Suc 0) = ''1''" and s2: "str_of_nat (Suc (Suc 0)) = ''2''"
    by code_simp+
  have first: "\<forall>j<1. check_row sample_self j (?A ! j) (?B2 ! j) = Inr ()"
    by (simp add: check_row_def assertItemsEqual_def same_items_def keys_def bind_exn_def
          check_field_def dict_get_def check_value_def assertValuesCloseOrEqual_def
          compares_exactly_def sample_self_def sample_close_def is_close_def)
  have differ: "set (keys (?A ! 1)) \<noteq> set (keys (?B2 ! 1))"
    by (simp add: keys_def)
  note len = length_and_field_errors [of ?A ?B1 sample_self "[]" "[]" 0, THEN conjunct1]
  note one = length_and_field_errors [of ?A ?B2 sample_self "?A ! 1" "?B2 ! 1" 1,
      THEN conjunct2, THEN conjunct1]
  note row = length_and_field_errors [of ?A ?B2 sample_self "[]" "[]" 1,
      THEN conjunct2, THEN conjunct2, THEN conjunct2]
  from len have "assertDataCloseOrEqual sample_self ?A ?B1
     = Inl (Exn AssertionError [''2 != 1 : len(data) != len(data)''])"
    by (simp add: s1 s2 sample_self_def)
  moreover from row first differ
  have "assertDataCloseOrEqual sample_self ?A ?B2 = Inl (Exn AssertionError [''differ : Row 1''])"
    by (simp add: s1 sample_self_def keys_def)
  moreover from one differ
  have "check_row sample_self 1 [(''a'', PInt 1), (''b'', PInt 2)] [(''a'', PInt 1)]
     = Inl (Exn AssertionError [''differ : Row 1''])"
    by (simp add: s1 sample_self_def keys_def)
  ultimately show ?thesis by simp
qed

subsection \<open>Exceptions of the comparators\<close>

text \<open>
  C6, as stated, fails: a TypeError raised by a comparator leaves
  \<^verbatim>\<open>_assertValuesCloseOrEqual\<close>, and \<^verbatim>\<open>assertDataCloseOrEqual\<close>, as a TypeError. The
  handler of lines 67-70 changes the message and raises the same exception again.
\<close>

theorem type_error_reraised_counterexample:
  "assertValuesCloseOrEqual sample_self (PFloat 1) (PStr ''x'') (Some ''Row 0, key k'')
     = Inl (Exn TypeError [''not a number : Row 0, key k''])
   \<and> assertDataCloseOrEqual sample_self [[(''k'', PFloat 1)]] [[(''k'', PStr ''x'')]]
     = Inl (Exn TypeError [''not a number : Row 0, key k''])
   \<and> exn_class (Exn TypeError [''not a number : Row 0, key k'']) \<noteq> AssertionError"
proof -
  have s0: "str_of_nat 0 = ''0''" by code_simp
  show ?thesis
    by (simp add: assertDataCloseOrEqual_def assertEqual_len_def bind_exn_def check_row_def
        assertItemsEqual_def same_items_def keys_def check_field_def dict_get_def check_value_def
        assertValuesCloseOrEqual_def compares_exactly_def sample_self_def sample_close_def
        reraise_def s0)
qed

text \<open>
  C6, amended. A TypeError with a message, raised by the comparator that the leaf policy
  chooses, is caught and raised again as the same TypeError: unchanged without a message
  argument, and with \<^verbatim>\<open>' : ' + msg\<close> appended to its message for a non-empty
  \<^verbatim>\<open>msg\<close>, which for a value that is not a tuple in \<^verbatim>\<open>assertDataCloseOrEqual\<close> is
  \<^verbatim>\<open>Row i, key k\<close>.
\<close>

theorem type_error_annotated:
  "(if string_typed a then assertAllEqual self a b else assertAllClose self a b)
      = Inl (Exn TypeError (a0 # rest)) \<longrightarrow>
     assertValuesCloseOrEqual self a b None = Inl (Exn TypeError (a0 # rest))
     \<and> (m \<noteq> [] \<longrightarrow>
          assertValuesCloseOrEqual self a b (Some m) = Inl (Exn TypeError ((a0 @ '' : '' @ m) # rest)))
     \<and> (\<not> isinstance_tuple a \<and> map_of a_row key = Some a \<and> map_of b_row key = Some b \<longrightarrow>
          check_field self i a_row b_row key =
            Inl (Exn TypeError ((a0 @ '' : Row '' @ str_of_nat i @ '', key '' @ key) # rest)))"
  by (auto simp: assertValuesCloseOrEqual_def compares_exactly_iff reraise_def check_field_def
        dict_get_def bind_exn_def check_value_def)

theorem type_error_annotated_witness:
  "assertValuesCloseOrEqual sample_self (PFloat 1) (PStr ''x'') None
     = Inl (Exn TypeError [''not a number''])
   \<and> assertValuesCloseOrEqual sample_self (PFloat 1) (PStr ''x'') (Some ''Row 0, key k'')
     = Inl (Exn TypeError [''not a number : Row 0, key k''])
   \<and> check_field sample_self 0 [(''k'', PFloat 1)] [(''k'', PStr ''x'')] ''k''
     = Inl (Exn TypeError [''not a number : Row 0, key k''])"
proof -
  have s0: "str_of_nat 0 = ''0''" by code_simp
  have raised: "(if string_typed (PFloat 1) then assertAllEqual sample_self (PFloat 1) (PStr ''x'')
                 else assertAllClose sample_self (PFloat 1) (PStr ''x''))
      = Inl (Exn TypeError (''not a number'' # []))"
    by (simp add: sample_self_def sample_close_def)
  from type_error_annotated [of "PFloat 1" sample_self "PStr ''x''" "''not a number''" "[]"
      "''Row 0, key k''" "[(''k'', PFloat 1)]" "''k''" "[(''k'', PStr ''x'')]" 0] raised
  show ?thesis by (simp add: s0)
qed

subsection \<open>The expected value chooses the comparison\<close>



subsection \<open>Deferred metadata\<close>

text \<open>
  C7. When the wrapper has pipeline collections, the metadata is the first element of
  what the resolver returns, and the resolver is called; otherwise it is the field
  \<^verbatim>\<open>dataset_metadata\<close>, and nothing is called. In both cases the metadata is
  returned when substituting the empty mapping leaves no unresolved future, and an
  AssertionError is raised when it leaves one.
\<close>

theorem resolve_deferred_metadata:
  "(pcollections tm \<noteq> [] \<and> ResolveBeamFutures m tm = Inr (r # rs) \<longrightarrow>
      resolveDeferredMetadata self m tm w =
        (if substitute_futures m r [] = [] then Inr r
         else Inl (Exn AssertionError
                [standardMsg self (Lines_op (substitute_futures m r [])) (Lines_op [])]),
         record_call (Call_ResolveBeamFutures tm) w))
   \<and> (pcollections tm = [] \<longrightarrow>
      resolveDeferredMetadata self m tm w =
        (if substitute_futures m (dataset_metadata tm) [] = [] then Inr (dataset_metadata tm)
         else Inl (Exn AssertionError
                [standardMsg self (Lines_op (substitute_futures m (dataset_metadata tm) []))
                   (Lines_op [])]),
         w))"
  by (simp add: resolveDeferredMetadata_def no_unresolved_def assertEqual_def bind_exn_def
        formatMessage_def)

theorem resolve_deferred_metadata_witness:
  "resolveDeferredMetadata sample_self sample_modules
      \<lparr>dataset_metadata = sample_metadata None, pcollections = [(''p'', ''q'')]\<rparr> empty_world
     = (Inr (sample_metadata None),
        \<lparr>files = Map.empty,
         calls = [Call_ResolveBeamFutures
                    \<lparr>dataset_metadata = sample_metadata None, pcollections = [(''p'', ''q'')]\<rparr>]\<rparr>)
   \<and> resolveDeferredMetadata sample_self (sample_modules\<lparr>substitute_futures := (\<lambda>md d. [''f''])\<rparr>)
      \<lparr>dataset_metadata = sample_metadata None, pcollections = []\<rparr> empty_world
     = (Inl (Exn AssertionError [''differ'']), empty_world)"
proof -
  let ?tm1 = "\<lparr>dataset_metadata = sample_metadata None, pcollections = [(''p'', ''q'')]\<rparr>"
  let ?tm2 = "\<lparr>dataset_metadata = sample_metadata None, pcollections = []\<rparr>"
  let ?m2 = "sample_modules\<lparr>substitute_futures := (\<lambda>md d. [''f''])\<rparr>"
  note a = resolve_deferred_metadata [of ?tm1 sample_modules "sample_metadata None" "[]"
      sample_self empty_world, THEN conjunct1]
  note b = resolve_deferred_metadata [of ?tm2 ?m2 _ _ sample_self empty_world, THEN conjunct2]
  from a have "resolveDeferredMetadata sample_self sample_modules ?tm1 empty_world
     = (Inr (sample_metadata None),
        \<lparr>files = Map.empty, calls = [Call_ResolveBeamFutures ?tm1]\<rparr>)"
    by (simp add: sample_modules_def empty_world_def record_call_def)
  moreover from b have "resolveDeferredMetadata sample_self ?m2 ?tm2 empty_world
     = (Inl (Exn AssertionError [''differ'']), empty_world)"
    by (simp add: sample_modules_def sample_self_def)
  ultimately show ?thesis by simp
qed

subsection \<open>The end-to-end assertion\<close>



text \<open>
  C9. For a falsy \<^verbatim>\<open>expected_metadata\<close>, \<^verbatim>\<open>None\<close> or a falsy object, the metadata
  step does nothing: the call makes no call to the resolver, and its result and world
  are the same whatever the resolver and \<^verbatim>\<open>substitute_futures\<close> would do. So it can
  succeed where resolving would fail.
\<close>

theorem falsy_expected_metadata:
  "falsy_metadata m em \<longrightarrow>
     check_metadata self m em core tm w = (Inr (), w)
     \<and> list_all (\<lambda>ev. \<not> is_resolve_call ev)
          (calls_made (assertAnalyzeAndTransformResults self m d md p ed em core assets t bs) w)
     \<and> assertAnalyzeAndTransformResults self
          (m\<lparr>ResolveBeamFutures := R, substitute_futures := S\<rparr>) d md p ed em core assets t bs w
        = assertAnalyzeAndTransformResults self m d md p ed em core assets t bs w"
proof (intro impI conjI)
  assume falsy: "falsy_metadata m em"
  then show "check_metadata self m em core tm w = (Inr (), w)"
    by (rule check_metadata_falsy)
  let ?whole = "assertAnalyzeAndTransformResults self m d md p ed em core assets t bs"
  from assert_calls [of self m d md p ed em core assets t bs w] falsy
  obtain c2 c4 where
    c: "calls (snd (?whole w)) =
         calls w @ expected_pipeline_calls m \<lparr>temp_dir = get_temp_dir self, desired_batch_size = bs\<rparr>
           p d md t @ c2 @ c4"
      "list_all is_write_call c2" "list_all is_open_call c4"
    by auto
  from c(1) have "calls_made ?whole w =
      expected_pipeline_calls m \<lparr>temp_dir = get_temp_dir self, desired_batch_size = bs\<rparr> p d md t
        @ c2 @ c4"
    by (rule calls_made_append)
  with c(2,3) show "list_all (\<lambda>ev. \<not> is_resolve_call ev) (calls_made ?whole w)"
    by (simp add: no_resolve_pipeline no_resolve_write no_resolve_open)
  let ?m' = "m\<lparr>ResolveBeamFutures := R, substitute_futures := S\<rparr>"
  from falsy have falsy': "falsy_metadata ?m' em"
    by (simp add: falsy_metadata_def split: option.splits)
  have md: "check_metadata self ?m' em core x = check_metadata self m em core x" for x
    using falsy falsy' by (intro ext) (simp add: check_metadata_falsy)
  show "assertAnalyzeAndTransformResults self ?m' d md p ed em core assets t bs w = ?whole w"
    by (simp add: assertAnalyzeAndTransformResults_def run_transform_resolver
          write_transform_fn_resolver check_assets_resolver md)
qed

theorem falsy_expected_metadata_witness:
  "fst (assertAnalyzeAndTransformResults sample_self
        (sample_modules\<lparr>ResolveBeamFutures := (\<lambda>tm. Inl (Exn RuntimeError [''unresolved''])),
                         substitute_futures := (\<lambda>md d. [''f''])\<rparr>)
        [[(''x'', PInt 1)], [(''x'', PInt 2)]] (sample_metadata None) 2
        (Some [[(''x'', PFloat 2)], [(''x'', PFloat 4)]]) None False None None None empty_world) = Inr ()
   \<and> check_metadata sample_self (sample_modules\<lparr>bool_metadata := (\<lambda>md. False)\<rparr>)
        (Some (sample_metadata None)) False
        \<lparr>dataset_metadata = sample_metadata None, pcollections = [(''p'', ''q'')]\<rparr> empty_world
       = (Inr (), empty_world)"
proof -
  have none: "falsy_metadata sample_modules None"
    by (simp add: falsy_metadata_def)
  have obj: "falsy_metadata (sample_modules\<lparr>bool_metadata := (\<lambda>md. False)\<rparr>) (Some (sample_metadata None))"
    by (simp add: falsy_metadata_def)
  note a = falsy_expected_metadata [where m = sample_modules and em = None and self = sample_self
      and core = False and w = empty_world and d = "[[(''x'', PInt 1)], [(''x'', PInt 2)]]"
      and md = "sample_metadata None" and p = 2
      and ed = "Some [[(''x'', PFloat 2)], [(''x'', PFloat 4)]]" and assets = None and t = None
      and bs = None and R = "\<lambda>tm. Inl (Exn RuntimeError [''unresolved''])"
      and S = "\<lambda>md d. [''f'']"]
  note b = falsy_expected_metadata [where m = "sample_modules\<lparr>bool_metadata := (\<lambda>md. False)\<rparr>"
      and em = "Some (sample_metadata None)" and self = sample_self and core = False
      and tm = "\<lparr>dataset_metadata = sample_metadata None, pcollections = [(''p'', ''q'')]\<rparr>"
      and w = empty_world]
  from a none b obj show ?thesis
    by (simp add: sample_run_ok)
qed



text \<open>
  C4. With \<^verbatim>\<open>only_check_core_metadata\<close> the comparison of the resolved metadata with
  the expected metadata succeeds if and only if the two have the same feature names
  and every feature has the same representation and the same dtype of its domain;
  other attributes, such as \<^verbatim>\<open>axes\<close> and \<^verbatim>\<open>vocabulary_file\<close>, do not enter. Without
  it the comparison succeeds if and only if the column schemas are equal and the
  metadata objects are equal. When the pipeline step returns, the data check passes,
  the expected metadata is truthy, the metadata resolves and no asset contents are
  expected, the result of this comparison is the result of the call.
\<close>

theorem metadata_comparison:
  "(distinct (map fst (column_schemas (schema rm))) \<longrightarrow>
      (compare_metadata self True em rm = Inr ()) =
        core_columns_equal (column_schemas (schema em)) (column_schemas (schema rm)))
   \<and> core_columns_equal ex
        (map (\<lambda>(k, c). (k, c\<lparr>axes := ax, domain := (domain c)\<lparr>vocabulary_file := vf\<rparr>\<rparr>)) tr)
      = core_columns_equal ex tr
   \<and> (compare_metadata self False em rm = Inr ()) =
        (dict_eq (column_schemas (schema em)) (column_schemas (schema rm)) \<and> metadata_eq em rm)
   \<and> (run_transform m \<lparr>temp_dir = get_temp_dir self, desired_batch_size = bs\<rparr> p d md t w
         = (Inr (td, tm, f), w1) \<and>
       check_data self ed td = Inr () \<and>
       bool_metadata m em \<and> resolveDeferredMetadata self m tm w1 = (Inr rm, w2) \<longrightarrow>
      fst (assertAnalyzeAndTransformResults self m d md p ed (Some em) core None t bs w)
        = compare_metadata self core em rm)"
  using compare_core_ok_iff [of rm self em] compare_full_ok_iff [of self em rm]
    core_columns_equal_other_fields [where ex = ex and ax = ax and vf = vf and tr = tr]
    assert_metadata_only [where m = m and self = self and bs = bs and p = p and d = d and md = md
      and t = t and w = w and td = td and tm = tm and f = f and ?w1.0 = w1 and em = em and rm = rm
      and ?w2.0 = w2 and core = core and ed = ed]
  by blast

theorem metadata_comparison_witness:
  "fst (assertAnalyzeAndTransformResults sample_self sample_modules
        [[(''x'', PInt 1)], [(''x'', PInt 2)]] (sample_metadata (Some ''vocab.txt'')) 2 None
        (Some (sample_metadata None)) True None None None empty_world) = Inr ()
   \<and> fst (assertAnalyzeAndTransformResults sample_self sample_modules
        [[(''x'', PInt 1)], [(''x'', PInt 2)]] (sample_metadata (Some ''vocab.txt'')) 2 None
        (Some (sample_metadata None)) False None None None empty_world) \<noteq> Inr ()"
proof -
  let ?D = "[[(''x'', PInt 1)], [(''x'', PInt 2)]]"
  let ?rm = "sample_metadata (Some ''vocab.txt'')"
  let ?em = "sample_metadata None"
  let ?tm = "\<lparr>dataset_metadata = ?rm, pcollections = []\<rparr>"
  let ?ctx = "\<lparr>temp_dir = get_temp_dir sample_self, desired_batch_size = None\<rparr>"
  let ?w1 = "record_call (Call_AnalyzeAndTransformDataset 2 ?D ?rm) empty_world"
  have run: "run_transform sample_modules ?ctx 2 ?D ?rm None empty_world
      = (Inr (scale_data 2 ?D, ?tm, 2), ?w1)"
    by (simp add: run_transform_def sample_modules_def)
  have truthy: "bool_metadata sample_modules ?em"
    by (simp add: sample_modules_def)
  have resolve: "resolveDeferredMetadata sample_self sample_modules ?tm ?w1 = (Inr ?rm, ?w1)"
    by (simp add: resolveDeferredMetadata_def no_unresolved_def assertEqual_def bind_exn_def
          sample_modules_def)
  have dist: "distinct (map fst (column_schemas (schema ?rm)))"
    by (simp add: sample_metadata_def)
  have core: "core_columns_equal (column_schemas (schema ?em)) (column_schemas (schema ?rm))"
    by (simp add: core_columns_equal_def sample_metadata_def sample_column_def)
  have full: "\<not> dict_eq (column_schemas (schema ?em)) (column_schemas (schema ?rm))"
    by (simp add: dict_eq_def sample_metadata_def sample_column_def)
  note a = metadata_comparison [where rm = ?rm and self = sample_self and em = ?em
      and m = sample_modules and bs = None and p = 2 and d = ?D and md = ?rm and t = None
      and w = empty_world and td = "scale_data 2 ?D" and tm = ?tm and f = 2 and ?w1.0 = ?w1
      and ?w2.0 = ?w1 and core = True and ed = None]
  note b = metadata_comparison [where rm = ?rm and self = sample_self and em = ?em
      and m = sample_modules and bs = None and p = 2 and d = ?D and md = ?rm and t = None
      and w = empty_world and td = "scale_data 2 ?D" and tm = ?tm and f = 2 and ?w1.0 = ?w1
      and ?w2.0 = ?w1 and core = False and ed = None]
  have data: "check_data sample_self None (scale_data 2 ?D) = Inr ()"
    by (simp add: check_data_def)
  from a run data truthy resolve dist core b full show ?thesis
    by simp
qed

end
